theory Spec2Isabelle
  imports Main "HOL-Library.AList" "HOL-Library.Word"
begin

section \<open>The image server: a shallow embedding of server.js\<close>

text \<open>
  The program is one Express application (server.js, 174 lines) that runs on Node 20
  (the Dockerfile's base image). Its own code is the configuration, the origin callback
  of the CORS middleware, the file filter and limits handed to multer, the function
  \<open>compressImage\<close> and five route handlers. Everything else is library code: Node's
  \<open>path\<close> and \<open>fs\<close> modules, \<open>Date.now\<close>, express, cors, multer and sharp.

  The functions of server.js are translated one to one and keep their names. The library
  calls they make are modelled next to them, each with a comment that says which documented
  behaviour of the library it stands for. The image encoder (sharp) is a parameter of the
  model: nothing is assumed about the bytes it produces.
\<close>

subsection \<open>Strings\<close>

type_synonym bytes = "8 word list"

text \<open>
  A JavaScript string is modelled as a \<open>string\<close>, one \<open>char\<close> for each code unit.
  \<open>String.prototype.toLowerCase\<close> is modelled on the ASCII letters; no code unit
  outside ASCII lower-cases to one of the ASCII letters that occur in the four extensions
  the program compares with, so the comparison is not affected.
\<close>

definition lower_char :: "char \<Rightarrow> char" where
  "lower_char c =
     (case map_of (zip ''ABCDEFGHIJKLMNOPQRSTUVWXYZ'' ''abcdefghijklmnopqrstuvwxyz'') c of
        Some l \<Rightarrow> l
      | None \<Rightarrow> c)"

definition toLowerCase :: "string \<Rightarrow> string" where
  "toLowerCase s = map lower_char s"

text \<open>\<open>String.prototype.split\<close> with a one-character separator.\<close>

fun split_on :: "char \<Rightarrow> string \<Rightarrow> string list" where
  "split_on c [] = [[]]"
| "split_on c (x # xs) =
     (if x = c then [] # split_on c xs
      else (case split_on c xs of
              [] \<Rightarrow> [[x]]
            | y # ys \<Rightarrow> (x # y) # ys))"

text \<open>
  The decimal numeral a template literal prints for a non-negative integer below
  \<open>10\<^sup>2\<^sup>1\<close>, which every reading of \<open>Date.now()\<close> is.
\<close>

definition digit_char :: "nat \<Rightarrow> char" where
  "digit_char d = ''0123456789'' ! d"

function dec_string :: "nat \<Rightarrow> string" where
  "dec_string n =
     (if n < 10 then [digit_char n]
      else dec_string (n div 10) @ [digit_char (n mod 10)])"
  by pat_completeness auto
termination
  by (relation "measure (\<lambda>n. n)") auto

declare dec_string.simps [simp del]

subsection \<open>Paths (Node's posix \<open>path\<close> module)\<close>

text \<open>
  \<open>path.extname\<close>: the extension of the last component of the path, trailing slashes
  ignored. It is the text from the last dot of that component to its end; it is empty
  when the component has no dot, when its only dot is its first character, and when the
  component is \<open>..\<close>. The definition works on the reversed path: \<open>r\<close> is the last
  component reversed, \<open>e\<close> what follows its last dot, \<open>pre\<close> what precedes it.
\<close>

definition extname :: "string \<Rightarrow> string" where
  "extname p =
     (let r = takeWhile (\<lambda>c. c \<noteq> CHR ''/'') (dropWhile (\<lambda>c. c = CHR ''/'') (rev p));
          e = takeWhile (\<lambda>c. c \<noteq> CHR ''.'') r;
          pre = drop (Suc (length e)) r
      in if CHR ''.'' \<notin> set r then []
         else if pre = [] then []
         else if e = [] \<and> pre = ''.'' then []
         else CHR ''.'' # rev e)"

text \<open>
  \<open>path.join\<close> concatenates its non-empty arguments with a slash and normalises the
  result: empty components and \<open>.\<close> are dropped, \<open>..\<close> removes the component before
  it (and is dropped at the root), and a trailing slash is kept. The first argument of
  every call in server.js is \<open>__dirname = path.resolve()\<close>, an absolute path, so the
  result is absolute. A normalised absolute path is modelled as the list of its components
  together with the flag "ends with a slash"; the empty list is the root.
\<close>

type_synonym fpath = "string list \<times> bool"

definition components :: "string \<Rightarrow> string list" where
  "components s = filter (\<lambda>x. x \<noteq> []) (split_on (CHR ''/'') s)"

fun normalizeString :: "string list \<Rightarrow> string list \<Rightarrow> string list" where
  "normalizeString acc [] = rev acc"
| "normalizeString acc (s # ss) =
     (if s = ''.'' then normalizeString acc ss
      else if s = ''..'' then normalizeString (drop 1 acc) ss
      else normalizeString (s # acc) ss)"

definition ends_with_slash :: "string \<Rightarrow> bool" where
  "ends_with_slash s = (s \<noteq> [] \<and> last s = CHR ''/'')"

definition path_join :: "string list \<Rightarrow> fpath" where
  "path_join args =
     (let given = filter (\<lambda>a. a \<noteq> []) args;
          cs = normalizeString [] (concat (map components given))
      in (cs, cs \<noteq> [] \<and> given \<noteq> [] \<and> ends_with_slash (last given)))"

text \<open>The path as Node prints it in an error message.\<close>

definition render :: "fpath \<Rightarrow> string" where
  "render p =
     (if fst p = [] then ''/''
      else concat (map (\<lambda>s. CHR ''/'' # s) (fst p)) @ (if snd p then ''/'' else []))"

subsection \<open>Errors\<close>

text \<open>
  A JavaScript \<open>Error\<close> object, as far as the program reads it: \<open>err.code\<close> (absent on a
  plain \<open>Error\<close>) and \<open>err.message\<close>.
\<close>

record js_error =
  code :: "string option"
  message :: string

definition Error :: "string \<Rightarrow> js_error" where
  "Error m = \<lparr>code = None, message = m\<rparr>"

text \<open>A failed system call: Node's message is the code, a description, the call, the path.\<close>

definition errno :: "string \<Rightarrow> string \<Rightarrow> string \<Rightarrow> fpath \<Rightarrow> js_error" where
  "errno c description syscall p =
     \<lparr>code = Some c,
      message = c @ '': '' @ description @ '', '' @ syscall @ '' '' @
                [CHR 0x27] @ render p @ [CHR 0x27]\<rparr>"

definition ENOENT :: "string \<Rightarrow> fpath \<Rightarrow> js_error" where
  "ENOENT = errno ''ENOENT'' ''no such file or directory''"

definition ENOTDIR :: "string \<Rightarrow> fpath \<Rightarrow> js_error" where
  "ENOTDIR = errno ''ENOTDIR'' ''not a directory''"

definition EISDIR :: "string \<Rightarrow> fpath \<Rightarrow> js_error" where
  "EISDIR = errno ''EISDIR'' ''illegal operation on a directory''"

text \<open>
  Every function of \<open>fs\<close> validates its path argument before it does anything else and
  throws \<open>ERR_INVALID_ARG_VALUE\<close> synchronously when the string contains a NUL character,
  also in the callback form. The message is modelled without its last sentence, which
  echoes the value received.
\<close>

definition has_nul :: "fpath \<Rightarrow> bool" where
  "has_nul p = list_ex (\<lambda>s. CHR 0x00 \<in> set s) (fst p)"

definition ERR_INVALID_ARG_VALUE :: js_error where
  "ERR_INVALID_ARG_VALUE =
     \<lparr>code = Some ''ERR_INVALID_ARG_VALUE'',
      message = ''The argument 'path' must be a string, Uint8Array, or URL without null bytes.''\<rparr>"

subsection \<open>The file system\<close>

text \<open>
  The disk is an association list from normalised absolute paths to nodes, in the order
  the directory enumeration returns them. The root always exists. Only the structural
  failures of the three calls the program makes are modelled (a missing entry, a file
  where a directory is needed, a directory where a file is needed); permissions and full
  disks are not.
\<close>

datatype node = File bytes | Dir

type_synonym filesystem = "(string list \<times> node) list"

definition node_at :: "filesystem \<Rightarrow> string list \<Rightarrow> node option" where
  "node_at fs p = (if p = [] then Some Dir else map_of fs p)"

text \<open>
  The outcome of a callback-style \<open>fs\<close> call: it throws before it starts, or it calls
  back with an error, or it calls back with a result.
\<close>

datatype 'a fs_result = Thrown js_error | Failed js_error | Done 'a

text \<open>\<open>fs.readdir(path, callback)\<close>: the names of the entries of a directory.\<close>

definition fs_readdir :: "filesystem \<Rightarrow> fpath \<Rightarrow> string list fs_result" where
  "fs_readdir fs p =
     (if has_nul p then Thrown ERR_INVALID_ARG_VALUE
      else case node_at fs (fst p) of
             None \<Rightarrow> Failed (ENOENT ''scandir'' p)
           | Some (File _) \<Rightarrow> Failed (ENOTDIR ''scandir'' p)
           | Some Dir \<Rightarrow>
               Done (map (\<lambda>e. last (fst e))
                       (filter (\<lambda>e. fst e \<noteq> [] \<and> butlast (fst e) = fst p) fs)))"

text \<open>\<open>fs.unlink(path, callback)\<close>: removes a regular file.\<close>

definition fs_unlink :: "filesystem \<Rightarrow> fpath \<Rightarrow> filesystem fs_result" where
  "fs_unlink fs p =
     (if has_nul p then Thrown ERR_INVALID_ARG_VALUE
      else case node_at fs (fst p) of
             None \<Rightarrow> Failed (ENOENT ''unlink'' p)
           | Some Dir \<Rightarrow> Failed (EISDIR ''unlink'' p)
           | Some (File _) \<Rightarrow>
               if snd p then Failed (ENOTDIR ''unlink'' p)
               else Done (AList.delete (fst p) fs))"

text \<open>
  Creating or replacing a regular file with the given content, as \<open>fs.writeFileSync\<close>
  does and as sharp's \<open>toFile\<close> does with its output: the parent must be a directory and
  the target must not be one. Both throw (or reject) on failure; inside \<open>compressImage\<close>
  that is the same thing.
\<close>

definition fs_write :: "filesystem \<Rightarrow> fpath \<Rightarrow> bytes \<Rightarrow> js_error + filesystem" where
  "fs_write fs p content =
     (if has_nul p then Inl ERR_INVALID_ARG_VALUE
      else if fst p = [] \<or> snd p then Inl (EISDIR ''open'' p)
      else case node_at fs (butlast (fst p)) of
             None \<Rightarrow> Inl (ENOENT ''open'' p)
           | Some (File _) \<Rightarrow> Inl (ENOTDIR ''open'' p)
           | Some Dir \<Rightarrow>
               (case map_of fs (fst p) of
                  Some Dir \<Rightarrow> Inl (EISDIR ''open'' p)
                | _ \<Rightarrow> Inr (AList.update (fst p) (File content) fs)))"

subsection \<open>Configuration\<close>

text \<open>
  The constants server.js reads from the environment at start-up (lines 17 to 28) and
  \<open>__dirname\<close> (line 14), the absolute path of the working directory. The numeric
  settings are the values \<open>parseInt\<close> returned.
\<close>

record config =
  dirname :: string
  UPLOADS_DIR :: string
  UPLOADS_URL :: string
  ALLOWED_ORIGINS :: "string list"
  MAX_FILES :: nat
  MAX_FILE_SIZE :: nat
  ALLOWED_TYPES :: "string list"

text \<open>The configuration when no environment variable is set.\<close>

definition default_config :: "string \<Rightarrow> config" where
  "default_config cwd =
     \<lparr>dirname = cwd,
      UPLOADS_DIR = ''uploads'',
      UPLOADS_URL = ''https://cdn.soulcraftbd.com/uploads'',
      ALLOWED_ORIGINS = split_on (CHR '','') ''https://soulcraftbd.com'',
      MAX_FILES = 20,
      MAX_FILE_SIZE = 2 * 1024 * 1024,
      ALLOWED_TYPES = split_on (CHR '','') ''image/jpeg,image/png,image/webp''\<rparr>"

text \<open>The storage directory, \<open>path.join(__dirname, UPLOADS_DIR)\<close>.\<close>

definition storage_dir :: "config \<Rightarrow> fpath" where
  "storage_dir cfg = path_join [dirname cfg, UPLOADS_DIR cfg]"

subsection \<open>The libraries the program is parameterised by\<close>

text \<open>
  The options server.js passes to sharp: \<open>jpeg({quality, mozjpeg})\<close>,
  \<open>png({compressionLevel, adaptiveFiltering})\<close> and \<open>webp({quality})\<close>.
\<close>

datatype img_format = Jpeg nat bool | Png nat bool | Webp nat

text \<open>
  \<open>sharp_encode\<close> is the encoder: it fails on input it cannot decode and returns the
  re-encoded bytes otherwise. \<open>limit_at_equal\<close> says whether the multipart parser
  reports the size limit for a part of exactly \<open>fileSize\<close> bytes (busboy 1.x does,
  0.x does not); a longer part is reported by both.
\<close>

record platform =
  sharp_encode :: "img_format \<Rightarrow> bytes \<Rightarrow> js_error + bytes"
  limit_at_equal :: bool

text \<open>
  \<open>sharp(buffer).jpeg(...).toFile(outputPath)\<close> and its siblings: encode, then write
  the output. A failed encode writes nothing.
\<close>

definition sharp_toFile ::
  "platform \<Rightarrow> img_format \<Rightarrow> bytes \<Rightarrow> fpath \<Rightarrow> filesystem \<Rightarrow> js_error + filesystem" where
  "sharp_toFile P fmt buffer outputPath fs =
     (case sharp_encode P fmt buffer of
        Inl err \<Rightarrow> Inl err
      | Inr out \<Rightarrow> fs_write fs outputPath out)"

subsection \<open>The world a request runs in\<close>

text \<open>
  The disk and the clock. \<open>clock w k\<close> is what the \<open>k\<close>-th call of \<open>Date.now()\<close>
  returns, \<open>reads w\<close> the number of calls made so far.
\<close>

record world =
  disk :: filesystem
  clock :: "nat \<Rightarrow> nat"
  reads :: nat

definition Date_now :: "world \<Rightarrow> nat \<times> world" where
  "Date_now w = (clock w (reads w), w\<lparr>reads := Suc (reads w)\<rparr>)"

subsection \<open>Responses\<close>

text \<open>
  What a JSON route sends: \<open>res.json\<close> of one of the five object shapes the program
  builds. \<open>Unhandled\<close> is the page of Express's final handler
  for an error that reached it: an error passed to \<open>next\<close> by a middleware, or an
  exception a route handler threw and did not catch.
\<close>

datatype reply =
    Images "string list"
  | Url string
  | Urls "string list"
  | Deleted string
  | Failure string
  | Unhandled js_error

record response =
  status :: nat
  reply :: reply

text \<open>The \<open>success\<close> member of a reply, when it is JSON.\<close>

fun success :: "reply \<Rightarrow> bool option" where
  "success (Images _) = Some True"
| "success (Url _) = Some True"
| "success (Urls _) = Some True"
| "success (Deleted _) = Some True"
| "success (Failure _) = Some False"
| "success (Unhandled _) = None"

text \<open>\<open>res.json(x)\<close> answers 200, \<open>res.status(n).json(x)\<close> answers \<open>n\<close>.\<close>

definition json :: "reply \<Rightarrow> response" where
  "json r = \<lparr>status = 200, reply = r\<rparr>"

definition status_json :: "nat \<Rightarrow> reply \<Rightarrow> response" where
  "status_json n r = \<lparr>status = n, reply = r\<rparr>"

text \<open>
  Express's final handler answers with \<open>err.status\<close> when the error has one and with 500
  otherwise; none of the errors of this program has one.
\<close>

definition final_handler :: "js_error \<Rightarrow> response" where
  "final_handler err = \<lparr>status = 500, reply = Unhandled err\<rparr>"

subsection \<open>The access-control filter (lines 34 to 46)\<close>

text \<open>
  \<open>origin\<close> is \<open>req.headers.origin\<close>: \<open>None\<close> when the request has no Origin header.
  \<open>!origin\<close> holds for \<open>undefined\<close> and for the empty string.
\<close>

definition falsy :: "string option \<Rightarrow> bool" where
  "falsy v = (v = None \<or> v = Some [])"

definition array_includes :: "string list \<Rightarrow> string option \<Rightarrow> bool" where
  "array_includes xs v = (case v of None \<Rightarrow> False | Some s \<Rightarrow> s \<in> set xs)"

definition cors_origin :: "config \<Rightarrow> string option \<Rightarrow> js_error + bool" where
  "cors_origin cfg origin =
     (if falsy origin \<or> array_includes (ALLOWED_ORIGINS cfg) origin then Inr True
      else Inl (Error ''Not allowed by CORS''))"

subsection \<open>Upload intake (lines 61 to 69, and multer)\<close>

text \<open>The file object multer builds for a part: \<open>file.size\<close> is the length of the buffer.\<close>

record upload_file =
  fieldname :: string
  originalname :: string
  mimetype :: string
  buffer :: bytes

definition fileFilter :: "config \<Rightarrow> upload_file \<Rightarrow> js_error + bool" where
  "fileFilter cfg file =
     (if mimetype file \<in> set (ALLOWED_TYPES cfg) then Inr True
      else Inl (Error ''Invalid file type (JPEG, PNG, WebP only).''))"

definition MulterError :: "string \<Rightarrow> js_error" where
  "MulterError c =
     \<lparr>code = Some c,
      message = (if c = ''LIMIT_FILE_SIZE'' then ''File too large''
                 else if c = ''LIMIT_UNEXPECTED_FILE'' then ''Unexpected field''
                 else c)\<rparr>"

definition over_limit :: "platform \<Rightarrow> config \<Rightarrow> upload_file \<Rightarrow> bool" where
  "over_limit P cfg file =
     (MAX_FILE_SIZE cfg < length (buffer file) \<or>
      (limit_at_equal P \<and> length (buffer file) = MAX_FILE_SIZE cfg))"

text \<open>
  multer with memory storage reads the file parts of a multipart body in their order. For
  each part: a part in a field that is not expected, or one more than the field may hold,
  is \<open>LIMIT_UNEXPECTED_FILE\<close>; then the file filter is asked, before any byte of the
  part is read; then the bytes are buffered in memory, and a part that reaches the
  \<open>fileSize\<close> limit is \<open>LIMIT_FILE_SIZE\<close>. The first error ends the request. Nothing
  is written to disk. \<open>left\<close> is the number of files the field may still take. The
  file parts are the parts that carry a file name (multer skips a part without one), and
  the body is well formed: errors of the multipart parser itself are not modelled.
\<close>

fun multer_files ::
  "platform \<Rightarrow> config \<Rightarrow> string \<Rightarrow> nat \<Rightarrow> upload_file list \<Rightarrow> js_error + upload_file list" where
  "multer_files P cfg field left [] = Inr []"
| "multer_files P cfg field left (file # rest) =
     (if fieldname file \<noteq> field \<or> left = 0 then Inl (MulterError ''LIMIT_UNEXPECTED_FILE'')
      else case fileFilter cfg file of
             Inl err \<Rightarrow> Inl err
           | Inr _ \<Rightarrow>
               if over_limit P cfg file then Inl (MulterError ''LIMIT_FILE_SIZE'')
               else (case multer_files P cfg field (left - 1) rest of
                       Inl err \<Rightarrow> Inl err
                     | Inr files \<Rightarrow> Inr (file # files)))"

text \<open>
  The body of an upload request. multer passes a request that is not multipart on
  untouched, so \<open>req.file\<close> and \<open>req.files\<close> stay undefined; for a multipart request
  \<open>upload.single\<close> sets \<open>req.file\<close> to the accepted file, if there is one, and
  \<open>upload.array\<close> sets \<open>req.files\<close> to the list of accepted files.
\<close>

datatype upload_body = NotMultipart | Multipart "upload_file list"

definition upload_single :: "platform \<Rightarrow> config \<Rightarrow> string \<Rightarrow> upload_body \<Rightarrow> js_error + upload_file option" where
  "upload_single P cfg field b =
     (case b of
        NotMultipart \<Rightarrow> Inr None
      | Multipart parts \<Rightarrow>
          (case multer_files P cfg field 1 parts of
             Inl err \<Rightarrow> Inl err
           | Inr files \<Rightarrow> Inr (case files of [] \<Rightarrow> None | file # _ \<Rightarrow> Some file)))"

definition upload_array ::
  "platform \<Rightarrow> config \<Rightarrow> string \<Rightarrow> nat \<Rightarrow> upload_body \<Rightarrow> js_error + upload_file list option" where
  "upload_array P cfg field maxCount b =
     (case b of
        NotMultipart \<Rightarrow> Inr None
      | Multipart parts \<Rightarrow>
          (case multer_files P cfg field maxCount parts of
             Inl err \<Rightarrow> Inl err
           | Inr files \<Rightarrow> Inr (Some files)))"





subsection \<open>The transcode step (lines 72 to 89)\<close>

definition compressImage ::
  "platform \<Rightarrow> config \<Rightarrow> bytes \<Rightarrow> string \<Rightarrow> filesystem \<Rightarrow> js_error + (string \<times> filesystem)" where
  "compressImage P cfg buf filename fs =
     (let ext = toLowerCase (extname filename);
          outputPath = path_join [dirname cfg, UPLOADS_DIR cfg, filename];
          written =
            (if ext \<in> set [''.jpg'', ''.jpeg''] then
               sharp_toFile P (Jpeg 80 True) buf outputPath fs
             else if ext = ''.png'' then
               sharp_toFile P (Png 9 True) buf outputPath fs
             else if ext = ''.webp'' then
               sharp_toFile P (Webp 80) buf outputPath fs
             else fs_write fs outputPath buf)
      in case written of
           Inl err \<Rightarrow> Inl err
         | Inr fs' \<Rightarrow> Inr (UPLOADS_URL cfg @ ''/'' @ filename, fs'))"

subsection \<open>The routes (lines 102 to 169)\<close>

text \<open>
  Each handler takes the world and returns the response with the world it leaves. The
  liveness page and the static file route take no part in any statement below and are
  left out.
\<close>

text \<open>\<open>GET /images\<close>\<close>

definition get_images :: "config \<Rightarrow> world \<Rightarrow> response \<times> world" where
  "get_images cfg w =
     (case fs_readdir (disk w) (path_join [dirname cfg, UPLOADS_DIR cfg]) of
        Thrown err \<Rightarrow> (final_handler err, w)
      | Failed err \<Rightarrow> (status_json 500 (Failure (message err)), w)
      | Done files \<Rightarrow>
          (json (Images (map (\<lambda>file. UPLOADS_URL cfg @ ''/'' @ file) files)), w))"

text \<open>
  The two \<open>TypeError\<close>s of Node 20 the upload handlers can raise: reading a property of
  \<open>undefined\<close>, and iterating over \<open>undefined\<close>.
\<close>

definition TypeError_originalname :: js_error where
  "TypeError_originalname = Error ''Cannot read properties of undefined (reading 'originalname')''"

definition TypeError_not_iterable :: js_error where
  "TypeError_not_iterable = Error ''req.files is not iterable''"

text \<open>
  \<open>POST /upload/single\<close>. In the template literal \<open>Date.now()\<close> is evaluated before
  \<open>req.file.originalname\<close>, so the clock is read also when \<open>req.file\<close> is undefined.
\<close>

definition post_upload_single ::
  "platform \<Rightarrow> config \<Rightarrow> upload_body \<Rightarrow> world \<Rightarrow> response \<times> world" where
  "post_upload_single P cfg b w =
     (case upload_single P cfg ''file'' b of
        Inl err \<Rightarrow>
          (status_json 400
             (Failure (if code err = Some ''LIMIT_FILE_SIZE'' then ''File too large (max 2MB)''
                       else message err)), w)
      | Inr req_file \<Rightarrow>
          (let (now, w1) = Date_now w
           in case req_file of
                None \<Rightarrow> (status_json 500 (Failure (message TypeError_originalname)), w1)
              | Some file \<Rightarrow>
                  (let filename = dec_string now @ ''-'' @ originalname file
                   in case compressImage P cfg (buffer file) filename (disk w1) of
                        Inl err \<Rightarrow> (status_json 500 (Failure (message err)), w1)
                      | Inr (url, fs') \<Rightarrow> (json (Url url), w1\<lparr>disk := fs'\<rparr>))))"

text \<open>
  \<open>POST /upload/multiple\<close>. \<open>upload_loop\<close> is the \<open>for\<close> loop of lines 147 to 151 with
  the \<open>urls\<close> collected so far; an exception leaves the loop with the world as it is.
\<close>

fun upload_loop ::
  "platform \<Rightarrow> config \<Rightarrow> upload_file list \<Rightarrow> string list \<Rightarrow> world \<Rightarrow>
     (js_error + string list) \<times> world" where
  "upload_loop P cfg [] urls w = (Inr urls, w)"
| "upload_loop P cfg (file # rest) urls w =
     (let (now, w1) = Date_now w;
          filename = dec_string now @ ''-'' @ originalname file
      in case compressImage P cfg (buffer file) filename (disk w1) of
           Inl err \<Rightarrow> (Inl err, w1)
         | Inr (url, fs') \<Rightarrow> upload_loop P cfg rest (urls @ [url]) (w1\<lparr>disk := fs'\<rparr>))"

definition post_upload_multiple ::
  "platform \<Rightarrow> config \<Rightarrow> upload_body \<Rightarrow> world \<Rightarrow> response \<times> world" where
  "post_upload_multiple P cfg b w =
     (case upload_array P cfg ''files'' (MAX_FILES cfg) b of
        Inl err \<Rightarrow>
          (status_json 400
             (Failure (if code err = Some ''LIMIT_FILE_SIZE'' then ''Each file must be under 2MB''
                       else message err)), w)
      | Inr req_files \<Rightarrow>
          (case req_files of
             None \<Rightarrow> (status_json 500 (Failure (message TypeError_not_iterable)), w)
           | Some files \<Rightarrow>
               (case upload_loop P cfg files [] w of
                  (Inl err, w') \<Rightarrow> (status_json 500 (Failure (message err)), w')
                | (Inr urls, w') \<Rightarrow> (json (Urls urls), w'))))"

text \<open>
  \<open>DELETE /images/:filename\<close>. The handler has no \<open>try\<close>: what \<open>fs.unlink\<close> throws
  goes to Express's final handler.
\<close>

definition delete_image :: "config \<Rightarrow> string \<Rightarrow> world \<Rightarrow> response \<times> world" where
  "delete_image cfg filename w =
     (let filePath = path_join [dirname cfg, UPLOADS_DIR cfg, filename]
      in case fs_unlink (disk w) filePath of
           Thrown err \<Rightarrow> (final_handler err, w)
         | Failed err \<Rightarrow>
             (status_json 404 (Failure ''File not found or already deleted''), w)
         | Done fs' \<Rightarrow> (json (Deleted ''Deleted successfully''), w\<lparr>disk := fs'\<rparr>))"

subsection \<open>The application\<close>

text \<open>
  A request: its Origin header, if it has one, and the route it matches with what the
  route reads from it. The CORS middleware is mounted before every route; when the origin
  callback reports an error the middleware passes it to \<open>next\<close> and no route runs.
\<close>

datatype route =
    GetImages
  | PostUploadSingle upload_body
  | PostUploadMultiple upload_body
  | DeleteImage string

record request =
  origin_header :: "string option"
  route :: route

fun dispatch :: "platform \<Rightarrow> config \<Rightarrow> route \<Rightarrow> world \<Rightarrow> response \<times> world" where
  "dispatch P cfg GetImages w = get_images cfg w"
| "dispatch P cfg (PostUploadSingle b) w = post_upload_single P cfg b w"
| "dispatch P cfg (PostUploadMultiple b) w = post_upload_multiple P cfg b w"
| "dispatch P cfg (DeleteImage filename) w = delete_image cfg filename w"

definition app :: "platform \<Rightarrow> config \<Rightarrow> request \<Rightarrow> world \<Rightarrow> response \<times> world" where
  "app P cfg req w =
     (case cors_origin cfg (origin_header req) of
        Inl err \<Rightarrow> (final_handler err, w)
      | Inr _ \<Rightarrow> dispatch P cfg (route req) w)"

subsection \<open>Vocabulary of the statements\<close>

text \<open>
  \<open>output_path\<close> is the path \<open>compressImage\<close> writes (\<open>outputPath\<close>, line 74) and
  \<open>DELETE /images/:filename\<close> unlinks (\<open>filePath\<close>, line 161). \<open>stored_filename\<close> is the
  template literal of lines 124 and 148.
\<close>

definition output_path :: "config \<Rightarrow> string \<Rightarrow> fpath" where
  "output_path cfg filename = path_join [dirname cfg, UPLOADS_DIR cfg, filename]"

definition stored_filename :: "nat \<Rightarrow> upload_file \<Rightarrow> string" where
  "stored_filename now file = dec_string now @ ''-'' @ originalname file"

text \<open>
  The transcode step as section 4.4 of the specification words it, to be compared with
  \<open>compressImage\<close>: two extensions are the same when they are equal letter by letter up
  to case; the result is the content of the stored file.
\<close>

definition equal_ignoring_case :: "string \<Rightarrow> string \<Rightarrow> bool" where
  "equal_ignoring_case a b = list_all2 (\<lambda>x y. lower_char x = lower_char y) a b"

definition spec_transcode :: "platform \<Rightarrow> string \<Rightarrow> bytes \<Rightarrow> js_error + bytes" where
  "spec_transcode P filename buf =
     (let ext = extname filename
      in if equal_ignoring_case ext ''.jpg'' \<or> equal_ignoring_case ext ''.jpeg'' then
           sharp_encode P (Jpeg 80 True) buf
         else if equal_ignoring_case ext ''.png'' then sharp_encode P (Png 9 True) buf
         else if equal_ignoring_case ext ''.webp'' then sharp_encode P (Webp 80) buf
         else Inr buf)"

subsection \<open>Example inputs\<close>

text \<open>
  A concrete server for the closed instances below: the default configuration in
  \<open>/app\<close> (the Dockerfile's working directory), an empty storage directory, a clock
  that advances one millisecond a reading, and an encoder that rejects an empty buffer and
  otherwise prefixes the input with a byte naming the format.
\<close>

definition example_config :: config where
  "example_config = default_config ''/app''"

definition example_platform :: platform where
  "example_platform =
     \<lparr>sharp_encode =
        (\<lambda>fmt buf. if buf = [] then Inl (Error ''Input Buffer is empty'')
                    else Inr ((case fmt of Jpeg q m \<Rightarrow> 1 | Png l a \<Rightarrow> 2 | Webp q \<Rightarrow> 3) # buf)),
      limit_at_equal = False\<rparr>"

definition example_world :: world where
  "example_world =
     \<lparr>disk = [([''app''], Dir), ([''app'', ''uploads''], Dir)],
      clock = (\<lambda>k. 1700000000000 + k),
      reads = 0\<rparr>"

definition cat_jpg :: upload_file where
  "cat_jpg =
     \<lparr>fieldname = ''file'', originalname = ''cat.JPG'', mimetype = ''image/jpeg'',
      buffer = [7, 8, 9]\<rparr>"

definition notes_txt :: upload_file where
  "notes_txt =
     \<lparr>fieldname = ''files'', originalname = ''notes.txt'', mimetype = ''image/png'',
      buffer = [4, 5]\<rparr>"

definition empty_png :: upload_file where
  "empty_png =
     \<lparr>fieldname = ''files'', originalname = ''empty.png'', mimetype = ''image/png'',
      buffer = []\<rparr>"

definition big_gif :: upload_file where
  "big_gif =
     \<lparr>fieldname = ''file'', originalname = ''big.gif'', mimetype = ''image/gif'',
      buffer = replicate (2 * 1024 * 1024 + 1) 0\<rparr>"

definition big_png :: upload_file where
  "big_png =
     \<lparr>fieldname = ''file'', originalname = ''big.png'', mimetype = ''image/png'',
      buffer = replicate (2 * 1024 * 1024 + 1) 0\<rparr>"



section \<open>Properties of the model\<close>

subsection \<open>The clock and the file system\<close>

lemma Date_now_simps:
  "fst (Date_now w) = clock w (reads w)"
  "disk (snd (Date_now w)) = disk w"
  "clock (snd (Date_now w)) = clock w"
  "reads (snd (Date_now w)) = Suc (reads w)"
  by (simp_all add: Date_now_def)

lemma fs_write_Inr:
  "fs_write fs p c = Inr fs' \<Longrightarrow>
     fs' = AList.update (fst p) (File c) fs \<and> \<not> has_nul p \<and> \<not> snd p \<and> fst p \<noteq> [] \<and>
     node_at fs (butlast (fst p)) = Some Dir \<and> map_of fs (fst p) \<noteq> Some Dir"
  by (auto simp: fs_write_def split: if_splits option.splits node.splits)

lemma fs_write_at: "fs_write fs p c = Inr fs' \<Longrightarrow> map_of fs' (fst p) = Some (File c)"
  by (auto dest!: fs_write_Inr simp: update_conv)

lemma fs_write_other:
  "fs_write fs p c = Inr fs' \<Longrightarrow> q \<noteq> fst p \<Longrightarrow> map_of fs' q = map_of fs q"
  by (auto dest!: fs_write_Inr simp: update_conv)

lemma fs_write_keeps_file:
  assumes "fs_write fs p c = Inr fs'" and "map_of fs q = Some (File c0)"
  shows "\<exists>c1. map_of fs' q = Some (File c1)"
proof (cases "q = fst p")
  case True
  with fs_write_at [OF assms(1)] show ?thesis by simp
next
  case False
  with fs_write_other [OF assms(1)] assms(2) show ?thesis by simp
qed

lemma fs_write_keeps_dir:
  assumes "fs_write fs p c = Inr fs'" and "map_of fs q = Some Dir"
  shows "map_of fs' q = Some Dir"
proof -
  from fs_write_Inr [OF assms(1)] assms(2) have "q \<noteq> fst p" by auto
  with fs_write_other [OF assms(1)] assms(2) show ?thesis by simp
qed

lemma sharp_toFile_Inr:
  "sharp_toFile P fmt buf p fs = Inr fs' \<Longrightarrow>
     \<exists>out. sharp_encode P fmt buf = Inr out \<and> fs_write fs p out = Inr fs'"
  by (auto simp: sharp_toFile_def split: sum.splits)

lemma compressImage_Inr:
  assumes "compressImage P cfg buf filename fs = Inr (url, fs')"
  shows "url = UPLOADS_URL cfg @ ''/'' @ filename"
    and "\<exists>c. fs_write fs (output_path cfg filename) c = Inr fs'"
proof -
  from assms show "url = UPLOADS_URL cfg @ ''/'' @ filename"
    by (auto simp: compressImage_def Let_def split: sum.splits)
  from assms show "\<exists>c. fs_write fs (output_path cfg filename) c = Inr fs'"
    by (auto simp: compressImage_def output_path_def Let_def
             split: sum.splits if_splits dest!: sharp_toFile_Inr)
qed

lemma compressImage_stored:
  assumes "compressImage P cfg buf filename fs = Inr (url, fs')"
  shows "\<exists>c. map_of fs' (fst (output_path cfg filename)) = Some (File c)"
  using compressImage_Inr(2) [OF assms] fs_write_at by blast

lemma compressImage_keeps_file:
  assumes "compressImage P cfg buf filename fs = Inr (url, fs')"
    and "map_of fs q = Some (File c0)"
  shows "\<exists>c1. map_of fs' q = Some (File c1)"
  using compressImage_Inr(2) [OF assms(1)] fs_write_keeps_file assms(2) by blast

lemma compressImage_keeps_dir:
  assumes "compressImage P cfg buf filename fs = Inr (url, fs')"
    and "map_of fs q = Some Dir"
  shows "map_of fs' q = Some Dir"
  using compressImage_Inr(2) [OF assms(1)] fs_write_keeps_dir assms(2) by blast


lemma upload_loop_append:
  "upload_loop P cfg (pre @ rest) urls w =
     (case upload_loop P cfg pre urls w of
        (Inl err, w') \<Rightarrow> (Inl err, w')
      | (Inr urls', w') \<Rightarrow> upload_loop P cfg rest urls' w')"
  by (induction pre arbitrary: urls w) (auto simp: Let_def split: prod.splits sum.splits)


lemma upload_loop_keeps_file:
  "upload_loop P cfg files urls w = (res, w') \<Longrightarrow> map_of (disk w) q = Some (File c0) \<Longrightarrow>
     \<exists>c1. map_of (disk w') q = Some (File c1)"
proof (induction files arbitrary: urls w c0)
  case Nil
  then show ?case by simp
next
  case (Cons f rest)
  let ?w1 = "snd (Date_now w)"
  let ?name = "dec_string (clock w (reads w)) @ ''-'' @ originalname f"
  show ?case
  proof (cases "compressImage P cfg (buffer f) ?name (disk w)")
    case (Inl err)
    with Cons.prems show ?thesis by (auto simp: Let_def Date_now_def)
  next
    case (Inr ok)
    obtain url fs' where ok: "ok = (url, fs')" by (cases ok)
    from Inr ok Cons.prems(1)
    have r: "upload_loop P cfg rest (urls @ [url]) (?w1\<lparr>disk := fs'\<rparr>) = (res, w')"
      by (simp add: Let_def Date_now_def)
    from compressImage_keeps_file [OF Inr [unfolded ok] Cons.prems(2)]
    obtain c1 where "map_of (disk (?w1\<lparr>disk := fs'\<rparr>)) q = Some (File c1)" by auto
    from Cons.IH [OF r this] show ?thesis .
  qed
qed

lemma upload_loop_stored:
  "upload_loop P cfg files urls w = (Inr urls', w') \<Longrightarrow>
     \<forall>(k, file) \<in> set (enumerate (reads w) files).
        \<exists>c. map_of (disk w')
               (fst (output_path cfg (dec_string (clock w k) @ ''-'' @ originalname file))) =
             Some (File c)"
proof (induction files arbitrary: urls w)
  case Nil
  then show ?case by simp
next
  case (Cons f rest)
  let ?w1 = "snd (Date_now w)"
  let ?name = "dec_string (clock w (reads w)) @ ''-'' @ originalname f"
  from Cons.prems obtain url fs' where
    c: "compressImage P cfg (buffer f) ?name (disk w) = Inr (url, fs')"
    and r: "upload_loop P cfg rest (urls @ [url]) (?w1\<lparr>disk := fs'\<rparr>) = (Inr urls', w')"
    by (auto simp: Let_def Date_now_def split: prod.splits sum.splits)
  from compressImage_stored [OF c] obtain c0 where
    "map_of (disk (?w1\<lparr>disk := fs'\<rparr>)) (fst (output_path cfg ?name)) = Some (File c0)" by auto
  from upload_loop_keeps_file [OF r this]
  have first: "\<exists>c. map_of (disk w') (fst (output_path cfg ?name)) = Some (File c)" .
  from Cons.IH [OF r] first show ?case by (simp add: Date_now_def)
qed

subsection \<open>Paths and names\<close>

lemma split_on_no_sep: "c \<notin> set s \<Longrightarrow> split_on c s = [s]"
  by (induction s) auto

lemma components_plain: "CHR ''/'' \<notin> set s \<Longrightarrow> s \<noteq> [] \<Longrightarrow> components s = [s]"
  by (simp add: components_def split_on_no_sep)

lemma components_Nil: "components [] = []"
  by (simp add: components_def)

lemma concat_components_filter:
  "concat (map components (filter (\<lambda>a. a \<noteq> []) args)) = concat (map components args)"
  by (induction args) (auto simp: components_Nil)

lemma normalizeString_append:
  "normalizeString acc (xs @ ys) = normalizeString (rev (normalizeString acc xs)) ys"
  by (induction xs arbitrary: acc) auto

lemma normalizeString_single:
  "s \<noteq> ''.'' \<Longrightarrow> s \<noteq> ''..'' \<Longrightarrow> normalizeString acc [s] = rev acc @ [s]"
  by simp

lemma output_path_plain:
  assumes "CHR ''/'' \<notin> set name" and "name \<noteq> []" and "name \<noteq> ''.''" and "name \<noteq> ''..''"
  shows "output_path cfg name = (fst (storage_dir cfg) @ [name], False)"
proof -
  let ?A = "components (dirname cfg) @ components (UPLOADS_DIR cfg)"
  have dir: "fst (storage_dir cfg) = normalizeString [] ?A"
    by (simp add: storage_dir_def path_join_def Let_def concat_components_filter
             del: filter.simps)
  have "fst (output_path cfg name) = normalizeString [] (?A @ [name])"
    using assms(1,2)
    by (simp add: output_path_def path_join_def Let_def concat_components_filter
                  components_plain del: filter.simps)
  also have "\<dots> = normalizeString (rev (normalizeString [] ?A)) [name]"
    by (rule normalizeString_append)
  also have "\<dots> = fst (storage_dir cfg) @ [name]"
    using assms(3,4) by (simp add: dir)
  finally have one: "fst (output_path cfg name) = fst (storage_dir cfg) @ [name]" .
  have "last (filter (\<lambda>a. a \<noteq> []) [dirname cfg, UPLOADS_DIR cfg, name]) = name"
    using assms(2) by simp
  moreover have "\<not> ends_with_slash name"
  proof
    assume "ends_with_slash name"
    then have "name \<noteq> []" and "last name = CHR ''/''" by (simp_all add: ends_with_slash_def)
    with last_in_set [of name] have "CHR ''/'' \<in> set name" by metis
    with assms(1) show False by simp
  qed
  ultimately have two: "snd (output_path cfg name) = False"
    by (simp add: output_path_def path_join_def Let_def del: filter.simps)
  from one two show ?thesis by (simp add: prod_eq_iff)
qed




lemma readdir_names:
  "set (map (\<lambda>e. last (fst e)) (filter (\<lambda>e. fst e \<noteq> [] \<and> butlast (fst e) = d) fs)) =
     {n. map_of fs (d @ [n]) \<noteq> None}"
proof (intro set_eqI iffI)
  fix n
  assume "n \<in> set (map (\<lambda>e. last (fst e)) (filter (\<lambda>e. fst e \<noteq> [] \<and> butlast (fst e) = d) fs))"
  then obtain e where e: "e \<in> set fs" "fst e \<noteq> []" "butlast (fst e) = d" "n = last (fst e)"
    by auto
  then have "fst e = d @ [n]" using append_butlast_last_id [of "fst e"] by simp
  with e(1) have "d @ [n] \<in> fst ` set fs" by force
  then show "n \<in> {n. map_of fs (d @ [n]) \<noteq> None}"
    by (simp add: map_of_eq_None_iff)
next
  fix n
  assume "n \<in> {n. map_of fs (d @ [n]) \<noteq> None}"
  then have "d @ [n] \<in> fst ` set fs" by (simp add: map_of_eq_None_iff)
  then obtain e where "e \<in> set fs" "fst e = d @ [n]" by auto
  then show "n \<in> set (map (\<lambda>e. last (fst e)) (filter (\<lambda>e. fst e \<noteq> [] \<and> butlast (fst e) = d) fs))"
    by force
qed

lemma takeWhile_skip:
  "c \<notin> set xs \<Longrightarrow> takeWhile (\<lambda>x. x \<noteq> c) (xs @ ys) = xs @ takeWhile (\<lambda>x. x \<noteq> c) ys"
  by (induction xs) auto

lemma extname_suffix:
  assumes "e \<noteq> []" and "CHR ''.'' \<notin> set e" and "CHR ''/'' \<notin> set e"
    and "stem \<noteq> []" and "last stem \<noteq> CHR ''/''"
  shows "extname (stem @ ''.'' @ e) = ''.'' @ e"
proof -
  let ?pre = "takeWhile (\<lambda>c. c \<noteq> CHR ''/'') (rev stem)"
  from assms(1,3) have "hd (rev e) \<noteq> CHR ''/''"
    by (metis hd_in_set rev_is_Nil_conv set_rev)
  with assms(1) have d: "dropWhile (\<lambda>c. c = CHR ''/'') (rev e @ CHR ''.'' # rev stem) = rev e @ CHR ''.'' # rev stem"
    by (cases "rev e") auto
  from assms(3) have r: "takeWhile (\<lambda>c. c \<noteq> CHR ''/'') (rev e @ CHR ''.'' # rev stem) = rev e @ CHR ''.'' # ?pre"
    by (simp add: takeWhile_skip)
  from assms(2) have t: "takeWhile (\<lambda>c. c \<noteq> CHR ''.'') (rev e @ CHR ''.'' # ?pre) = rev e"
    by (simp add: takeWhile_skip)
  from assms(4,5) have p: "?pre \<noteq> []"
    by (cases "rev stem") (auto simp: last_rev)
  show ?thesis
    using assms(1) p by (simp add: extname_def d r t Let_def)
qed

subsection \<open>Upload intake\<close>

lemma multer_files_Inr:
  "multer_files P cfg field left parts = Inr files \<Longrightarrow>
     files = parts \<and> length parts \<le> left \<and>
     (\<forall>f\<in>set parts. fieldname f = field \<and> mimetype f \<in> set (ALLOWED_TYPES cfg) \<and>
                        \<not> over_limit P cfg f)"
proof (induction parts arbitrary: left files)
  case Nil
  then show ?case by simp
next
  case (Cons f rest)
  from Cons.prems obtain files' where
    ok: "fieldname f = field" "left \<noteq> 0" "mimetype f \<in> set (ALLOWED_TYPES cfg)"
        "\<not> over_limit P cfg f"
    and rec: "multer_files P cfg field (left - 1) rest = Inr files'"
    and fs: "files = f # files'"
    by (auto simp: fileFilter_def split: if_splits sum.splits)
  from Cons.IH [OF rec] ok fs show ?case by auto
qed

lemma multer_files_Inl:
  "multer_files P cfg field left parts = Inl e \<Longrightarrow>
     e = MulterError ''LIMIT_UNEXPECTED_FILE'' \<or>
     e = Error ''Invalid file type (JPEG, PNG, WebP only).'' \<or>
     (e = MulterError ''LIMIT_FILE_SIZE'' \<and> (\<exists>f\<in>set parts. over_limit P cfg f))"
proof (induction parts arbitrary: left)
  case Nil
  then show ?case by simp
next
  case (Cons f rest)
  then show ?case
    by (fastforce simp: fileFilter_def split: if_splits sum.splits)
qed

lemma multer_files_first_oversize:
  "multer_files P cfg field left pre = Inr pre \<Longrightarrow> length pre < left \<Longrightarrow>
   fieldname f = field \<Longrightarrow> mimetype f \<in> set (ALLOWED_TYPES cfg) \<Longrightarrow> over_limit P cfg f \<Longrightarrow>
   multer_files P cfg field left (pre @ f # post) = Inl (MulterError ''LIMIT_FILE_SIZE'')"
proof (induction pre arbitrary: left)
  case Nil
  then show ?case by (simp add: fileFilter_def)
next
  case (Cons g pre)
  from Cons.prems(1) have rec: "multer_files P cfg field (left - 1) pre = Inr pre"
    and ok: "fieldname g = field" "left \<noteq> 0" "mimetype g \<in> set (ALLOWED_TYPES cfg)"
            "\<not> over_limit P cfg g"
    by (auto simp: fileFilter_def split: if_splits sum.splits)
  from Cons.prems(2) have "length pre < left - 1" by simp
  from Cons.IH [OF rec this Cons.prems(3-5)] ok show ?case
    by (simp add: fileFilter_def)
qed

lemma multer_files_rejected:
  assumes "f \<in> set parts"
    and "mimetype f \<notin> set (ALLOWED_TYPES cfg) \<or> over_limit P cfg f \<or> fieldname f \<noteq> field"
  shows "\<exists>e. multer_files P cfg field left parts = Inl e"
proof (cases "multer_files P cfg field left parts")
  case (Inl e)
  then show ?thesis by simp
next
  case (Inr files)
  from multer_files_Inr [OF Inr] assms show ?thesis by blast
qed

subsection \<open>The transcode step\<close>

lemma equal_ignoring_case_iff:
  "equal_ignoring_case a b \<longleftrightarrow> toLowerCase a = toLowerCase b"
  unfolding equal_ignoring_case_def toLowerCase_def
proof (induction a arbitrary: b)
  case Nil
  then show ?case by auto
next
  case (Cons x a)
  then show ?case by (cases b) auto
qed

lemma toLowerCase_extensions:
  "toLowerCase ''.jpg'' = ''.jpg''" "toLowerCase ''.jpeg'' = ''.jpeg''"
  "toLowerCase ''.png'' = ''.png''" "toLowerCase ''.webp'' = ''.webp''"
  by (simp_all add: toLowerCase_def lower_char_def)

lemma compressImage_transcode:
  "compressImage P cfg buf filename fs =
     (case spec_transcode P filename buf of
        Inl err \<Rightarrow> Inl err
      | Inr content \<Rightarrow>
          (case fs_write fs (output_path cfg filename) content of
             Inl err \<Rightarrow> Inl err
           | Inr fs' \<Rightarrow> Inr (UPLOADS_URL cfg @ ''/'' @ filename, fs')))"
  by (simp add: compressImage_def spec_transcode_def sharp_toFile_def output_path_def
                equal_ignoring_case_iff toLowerCase_extensions Let_def
           split: sum.splits)

subsection \<open>The example server\<close>

lemma dec_string_example: "dec_string 1700000000000 = ''1700000000000''"
  by (simp add: dec_string.simps digit_char_def)

lemma dec_string_examples:
  "dec_string 1700000000001 = ''1700000000001''"
  "dec_string 1700000000002 = ''1700000000002''"
  by (simp_all add: dec_string.simps digit_char_def)

lemma example_output_path:
  "CHR ''/'' \<notin> set name \<Longrightarrow> name \<noteq> [] \<Longrightarrow> name \<noteq> ''.'' \<Longrightarrow> name \<noteq> ''..'' \<Longrightarrow>
     output_path example_config name = ([''app'', ''uploads'', name], False)"
  by (simp add: output_path_plain storage_dir_def path_join_def components_def
                example_config_def default_config_def)

lemma example_config_simps:
  "UPLOADS_URL example_config = ''https://cdn.soulcraftbd.com/uploads''"
  "ALLOWED_TYPES example_config = [''image/jpeg'', ''image/png'', ''image/webp'']"
  "ALLOWED_ORIGINS example_config = [''https://soulcraftbd.com'']"
  "MAX_FILE_SIZE example_config = 2097152"
  "MAX_FILES example_config = 20"
  "dirname example_config = ''/app''"
  "UPLOADS_DIR example_config = ''uploads''"
  by (simp_all add: example_config_def default_config_def)

lemma example_store:
  assumes "CHR ''/'' \<notin> set name" and "name \<noteq> []" and "name \<noteq> ''.''" and "name \<noteq> ''..''"
    and "CHR 0x00 \<notin> set name"
    and "map_of fs [''app'', ''uploads''] = Some Dir"
    and "map_of fs [''app'', ''uploads'', name] \<noteq> Some Dir"
    and "spec_transcode example_platform name buf = Inr content"
  shows "compressImage example_platform example_config buf name fs =
           Inr (''https://cdn.soulcraftbd.com/uploads/'' @ name,
                AList.update [''app'', ''uploads'', name] (File content) fs)"
  using assms(5-8)
  by (auto simp add: compressImage_transcode example_output_path [OF assms(1-4)] fs_write_def
                has_nul_def node_at_def example_config_simps
           split: option.splits node.splits)

lemma example_transcode:
  "spec_transcode example_platform ''1700000000000-cat.JPG'' [7, 8, 9] = Inr [1, 7, 8, 9]"
  "spec_transcode example_platform ''1700000000000-pic.Png'' [7, 8, 9] = Inr [2, 7, 8, 9]"
  "spec_transcode example_platform ''1700000000000-a.webp'' [7, 8, 9] = Inr [3, 7, 8, 9]"
  "spec_transcode example_platform ''1700000000000-notes.txt'' [7, 8, 9] = Inr [7, 8, 9]"
  "spec_transcode example_platform ''1700000000001-notes.txt'' [4, 5] = Inr [4, 5]"
  "spec_transcode example_platform ''1700000000002-empty.png'' [] =
     Inl (Error ''Input Buffer is empty'')"
  by (simp_all add: spec_transcode_def extname_def equal_ignoring_case_def lower_char_def
                    example_platform_def)


lemma example_batch:
  "upload_loop example_platform example_config
       [cat_jpg\<lparr>fieldname := ''files''\<rparr>, notes_txt, empty_png] [] example_world =
     (Inl (Error ''Input Buffer is empty''),
      example_world
        \<lparr>reads := 3,
         disk := disk example_world @
                   [([''app'', ''uploads'', ''1700000000000-cat.JPG''], File [1, 7, 8, 9]),
                    ([''app'', ''uploads'', ''1700000000001-notes.txt''], File [4, 5])]\<rparr>)"
proof -
  note st = example_store [OF _ _ _ _ _ _ _ example_transcode(1)]
            example_store [OF _ _ _ _ _ _ _ example_transcode(5)]
  have fail: "\<And>fs. compressImage example_platform example_config []
                       ''1700000000002-empty.png'' fs = Inl (Error ''Input Buffer is empty'')"
    by (simp add: compressImage_transcode example_transcode(6))
  show ?thesis
    by (simp add: Date_now_def example_world_def cat_jpg_def notes_txt_def empty_png_def
                  dec_string_example dec_string_examples st fail)
qed

lemma example_pair:
  "upload_loop example_platform example_config
       [cat_jpg\<lparr>fieldname := ''files''\<rparr>, notes_txt] [] example_world =
     (Inr [''https://cdn.soulcraftbd.com/uploads/1700000000000-cat.JPG'',
           ''https://cdn.soulcraftbd.com/uploads/1700000000001-notes.txt''],
      example_world
        \<lparr>reads := 2,
         disk := disk example_world @
                   [([''app'', ''uploads'', ''1700000000000-cat.JPG''], File [1, 7, 8, 9]),
                    ([''app'', ''uploads'', ''1700000000001-notes.txt''], File [4, 5])]\<rparr>)"
proof -
  note st = example_store [OF _ _ _ _ _ _ _ example_transcode(1)]
            example_store [OF _ _ _ _ _ _ _ example_transcode(5)]
  show ?thesis
    by (simp add: Date_now_def example_world_def cat_jpg_def notes_txt_def
                  dec_string_example dec_string_examples st)
qed

lemma example_intake:
  "upload_array example_platform example_config ''files'' (MAX_FILES example_config)
       (Multipart [cat_jpg\<lparr>fieldname := ''files''\<rparr>, notes_txt]) =
     Inr (Some [cat_jpg\<lparr>fieldname := ''files''\<rparr>, notes_txt])"
  "upload_array example_platform example_config ''files'' (MAX_FILES example_config)
       (Multipart [cat_jpg\<lparr>fieldname := ''files''\<rparr>, notes_txt, empty_png]) =
     Inr (Some [cat_jpg\<lparr>fieldname := ''files''\<rparr>, notes_txt, empty_png])"
  by (simp_all add: upload_array_def fileFilter_def over_limit_def example_config_simps
                    example_platform_def cat_jpg_def notes_txt_def empty_png_def)

subsection \<open>Successful uploads\<close>



subsection \<open>Rejected uploads\<close>

lemma intake_error_single:
  "upload_single P cfg ''file'' b = Inl err \<Longrightarrow>
     post_upload_single P cfg b w =
       (status_json 400
          (Failure (if code err = Some ''LIMIT_FILE_SIZE'' then ''File too large (max 2MB)''
                    else message err)), w)"
  by (simp add: post_upload_single_def)

lemma intake_error_multiple:
  "upload_array P cfg ''files'' (MAX_FILES cfg) b = Inl err \<Longrightarrow>
     post_upload_multiple P cfg b w =
       (status_json 400
          (Failure (if code err = Some ''LIMIT_FILE_SIZE'' then ''Each file must be under 2MB''
                    else message err)), w)"
  by (simp add: post_upload_multiple_def)

lemma upload_single_Multipart:
  "upload_single P cfg field (Multipart parts) = Inl err \<longleftrightarrow>
     multer_files P cfg field 1 parts = Inl err"
  by (simp add: upload_single_def split: sum.splits)

lemma upload_array_Multipart:
  "upload_array P cfg field n (Multipart parts) = Inl err \<longleftrightarrow>
     multer_files P cfg field n parts = Inl err"
  by (simp add: upload_array_def split: sum.splits)

lemma over_limit_exceeds: "MAX_FILE_SIZE cfg < length (buffer p) \<Longrightarrow> over_limit P cfg p"
  by (simp add: over_limit_def)

lemma intake_messages:
  assumes "multer_files P cfg field left parts = Inl err"
  shows "(code err = Some ''LIMIT_FILE_SIZE'' \<and> (\<exists>p\<in>set parts. over_limit P cfg p)) \<or>
         (code err \<noteq> Some ''LIMIT_FILE_SIZE'' \<and>
          (message err = ''Unexpected field'' \<or>
           message err = ''Invalid file type (JPEG, PNG, WebP only).''))"
  using multer_files_Inl [OF assms] by (auto simp: MulterError_def Error_def)

lemma rejected_400:
  assumes "p \<in> set parts"
    and "mimetype p \<notin> set (ALLOWED_TYPES cfg) \<or> over_limit P cfg p"
  shows "status (fst (post_upload_single P cfg (Multipart parts) w)) = 400"
    and "snd (post_upload_single P cfg (Multipart parts) w) = w"
    and "status (fst (post_upload_multiple P cfg (Multipart parts) w)) = 400"
    and "snd (post_upload_multiple P cfg (Multipart parts) w) = w"
proof -
  from assms multer_files_rejected [of p parts cfg P]
  obtain e1 e2 where e1: "multer_files P cfg ''file'' 1 parts = Inl e1"
    and e2: "multer_files P cfg ''files'' (MAX_FILES cfg) parts = Inl e2"
    by blast
  from e1 have "upload_single P cfg ''file'' (Multipart parts) = Inl e1"
    by (simp add: upload_single_Multipart)
  from intake_error_single [OF this]
  show "status (fst (post_upload_single P cfg (Multipart parts) w)) = 400"
    and "snd (post_upload_single P cfg (Multipart parts) w) = w"
    by (simp_all add: status_json_def)
  from e2 have "upload_array P cfg ''files'' (MAX_FILES cfg) (Multipart parts) = Inl e2"
    by (simp add: upload_array_Multipart)
  from intake_error_multiple [OF this]
  show "status (fst (post_upload_multiple P cfg (Multipart parts) w)) = 400"
    and "snd (post_upload_multiple P cfg (Multipart parts) w) = w"
    by (simp_all add: status_json_def)
qed

lemma rejected_failure:
  assumes "p \<in> set parts"
    and "mimetype p \<notin> set (ALLOWED_TYPES cfg) \<or> over_limit P cfg p"
  shows "success (reply (fst (post_upload_single P cfg (Multipart parts) w))) = Some False"
    and "success (reply (fst (post_upload_multiple P cfg (Multipart parts) w))) = Some False"
proof -
  from assms multer_files_rejected [of p parts cfg P]
  obtain e1 e2 where e1: "multer_files P cfg ''file'' 1 parts = Inl e1"
    and e2: "multer_files P cfg ''files'' (MAX_FILES cfg) parts = Inl e2"
    by blast
  from e1 have "upload_single P cfg ''file'' (Multipart parts) = Inl e1"
    by (simp add: upload_single_Multipart)
  from intake_error_single [OF this]
  show "success (reply (fst (post_upload_single P cfg (Multipart parts) w))) = Some False"
    by (simp add: status_json_def)
  from e2 have "upload_array P cfg ''files'' (MAX_FILES cfg) (Multipart parts) = Inl e2"
    by (simp add: upload_array_Multipart)
  from intake_error_multiple [OF this]
  show "success (reply (fst (post_upload_multiple P cfg (Multipart parts) w))) = Some False"
    by (simp add: status_json_def)
qed

subsection \<open>A failing file in a batch\<close>

lemma upload_loop_fails:
  assumes pre: "upload_loop P cfg pre [] w = (Inr urls, w1)"
    and bad: "compressImage P cfg (buffer f) (stored_filename (clock w1 (reads w1)) f) (disk w1) =
                Inl err"
  shows "upload_loop P cfg (pre @ f # post) [] w = (Inl err, snd (Date_now w1))"
proof -
  from bad have "upload_loop P cfg (f # post) urls w1 = (Inl err, snd (Date_now w1))"
    by (simp add: Date_now_def stored_filename_def)
  with pre show ?thesis by (simp add: upload_loop_append del: upload_loop.simps)
qed

subsection \<open>The listing\<close>

lemma storage_dir_output: "path_join [dirname cfg, UPLOADS_DIR cfg] = storage_dir cfg"
  by (simp add: storage_dir_def)

lemma get_images_listing:
  assumes "\<not> has_nul (storage_dir cfg)"
    and "node_at (disk w) (fst (storage_dir cfg)) = Some Dir"
  shows "\<exists>urls. get_images cfg w = (json (Images urls), w) \<and>
           set urls = (\<lambda>n. UPLOADS_URL cfg @ ''/'' @ n) `
                        {n. map_of (disk w) (fst (storage_dir cfg) @ [n]) \<noteq> None}"
proof -
  let ?files = "map (\<lambda>e. last (fst e))
                  (filter (\<lambda>e. fst e \<noteq> [] \<and> butlast (fst e) = fst (storage_dir cfg)) (disk w))"
  from assms have "fs_readdir (disk w) (storage_dir cfg) = Done ?files"
    by (simp add: fs_readdir_def)
  then have "get_images cfg w =
               (json (Images (map (\<lambda>file. UPLOADS_URL cfg @ ''/'' @ file) ?files)), w)"
    by (simp add: get_images_def storage_dir_output)
  moreover have "set ?files = {n. map_of (disk w) (fst (storage_dir cfg) @ [n]) \<noteq> None}"
    by (rule readdir_names)
  then have "set (map (\<lambda>file. UPLOADS_URL cfg @ ''/'' @ file) ?files) =
                   (\<lambda>n. UPLOADS_URL cfg @ ''/'' @ n) `
                     {n. map_of (disk w) (fst (storage_dir cfg) @ [n]) \<noteq> None}"
    by (simp only: set_map)
  ultimately show ?thesis by blast
qed

lemma get_images_unreadable:
  assumes "\<not> has_nul (storage_dir cfg)"
    and "node_at (disk w) (fst (storage_dir cfg)) \<noteq> Some Dir"
  shows "\<exists>err. fs_readdir (disk w) (storage_dir cfg) = Failed err \<and>
           get_images cfg w = (status_json 500 (Failure (message err)), w)"
  using assms
  by (auto simp: get_images_def storage_dir_output fs_readdir_def
           split: option.splits node.splits)

lemma example_path_join: "path_join [''/app'', ''uploads''] = ([''app'', ''uploads''], False)"
  by (simp add: path_join_def components_def ends_with_slash_def)

lemma example_storage_dir: "storage_dir example_config = ([''app'', ''uploads''], False)"
  by (simp add: storage_dir_def example_path_join example_config_simps)

subsection \<open>Deletion\<close>

text \<open>
  Every case of \<open>DELETE /images/:filename\<close>: a name whose path holds a NUL makes
  \<open>fs.unlink\<close> throw; a name that resolves to a regular file (and does not end with a
  slash) is removed, and nothing else on the disk changes; every other name is answered
  404.
\<close>

lemma delete_image_cases:
  "delete_image cfg filename w =
     (if has_nul (output_path cfg filename) then (final_handler ERR_INVALID_ARG_VALUE, w)
      else if (\<exists>c. node_at (disk w) (fst (output_path cfg filename)) = Some (File c)) \<and>
              \<not> snd (output_path cfg filename)
      then (json (Deleted ''Deleted successfully''),
            w\<lparr>disk := AList.delete (fst (output_path cfg filename)) (disk w)\<rparr>)
      else (status_json 404 (Failure ''File not found or already deleted''), w))"
  by (auto simp: delete_image_def output_path_def fs_unlink_def Let_def
           split: option.splits node.splits)

lemma delete_image_removes:
  assumes "\<not> has_nul (output_path cfg filename)"
    and "node_at (disk w) (fst (output_path cfg filename)) = Some (File c)"
    and "\<not> snd (output_path cfg filename)"
  shows "\<exists>w'. delete_image cfg filename w = (json (Deleted ''Deleted successfully''), w') \<and>
           map_of (disk w') (fst (output_path cfg filename)) = None \<and>
           (\<forall>q. q \<noteq> fst (output_path cfg filename) \<longrightarrow> map_of (disk w') q = map_of (disk w) q)"
  using assms by (simp add: delete_image_cases delete_conv)

lemma delete_image_missing:
  assumes "\<not> has_nul (output_path cfg filename)"
    and "node_at (disk w) (fst (output_path cfg filename)) = None"
  shows "delete_image cfg filename w =
           (status_json 404 (Failure ''File not found or already deleted''), w)"
  using assms by (simp add: delete_image_cases)

subsection \<open>A request without a file\<close>

lemma upload_single_no_file:
  "upload_single P cfg field b = Inr None \<longleftrightarrow> b = NotMultipart \<or> b = Multipart []"
proof (cases b)
  case NotMultipart
  then show ?thesis by (simp add: upload_single_def)
next
  case (Multipart parts)
  show ?thesis
  proof (cases parts)
    case Nil
    with Multipart show ?thesis by (simp add: upload_single_def)
  next
    case (Cons p rest)
    with Multipart show ?thesis
      by (auto simp: upload_single_def split: sum.splits list.splits dest: multer_files_Inr)
  qed
qed

subsection \<open>The client's file name, and uploads that succeed\<close>









section \<open>The claims\<close>

subsection \<open>C1: the transcode step dispatches on the extension\<close>

text \<open>
  C1. For every input buffer and stored filename, the transcode step dispatches on the
  filename's extension without regard to case: for \<open>.jpg\<close> and \<open>.jpeg\<close> it stores the
  output of the JPEG encoder at quality 80, for \<open>.png\<close> the output of the PNG encoder at
  compression level 9 with adaptive filtering, for \<open>.webp\<close> the output of the WebP encoder
  at quality 80, and for every other extension the original bytes, unmodified. In the
  words of the model: \<open>compressImage\<close> writes to the output path exactly what
  \<open>spec_transcode\<close> yields, fails when the encoder or the write fails, and returns the
  public URL; after a successful call the file at the output path holds that content.
\<close>

theorem C1_transcode_dispatch:
  "compressImage P cfg buf filename fs =
     (case spec_transcode P filename buf of
        Inl err \<Rightarrow> Inl err
      | Inr content \<Rightarrow>
          (case fs_write fs (output_path cfg filename) content of
             Inl err \<Rightarrow> Inl err
           | Inr fs' \<Rightarrow> Inr (UPLOADS_URL cfg @ ''/'' @ filename, fs')))
   \<and> (\<forall>url fs'. compressImage P cfg buf filename fs = Inr (url, fs') \<longrightarrow>
         (\<exists>content. spec_transcode P filename buf = Inr content \<and>
                    map_of fs' (fst (output_path cfg filename)) = Some (File content)))"
proof -
  have "\<exists>content. spec_transcode P filename buf = Inr content \<and>
                    map_of fs' (fst (output_path cfg filename)) = Some (File content)"
    if "compressImage P cfg buf filename fs = Inr (url, fs')" for url fs'
    using that fs_write_at unfolding compressImage_transcode by (fastforce split: sum.splits)
  with compressImage_transcode show ?thesis by blast
qed

theorem C1_transcode_dispatch_witness:
  "compressImage example_platform example_config [7, 8, 9] ''1700000000000-cat.JPG''
       (disk example_world) =
     Inr (''https://cdn.soulcraftbd.com/uploads/1700000000000-cat.JPG'',
          disk example_world @
            [([''app'', ''uploads'', ''1700000000000-cat.JPG''], File [1, 7, 8, 9])])
   \<and> compressImage example_platform example_config [7, 8, 9] ''1700000000000-pic.Png''
       (disk example_world) =
     Inr (''https://cdn.soulcraftbd.com/uploads/1700000000000-pic.Png'',
          disk example_world @
            [([''app'', ''uploads'', ''1700000000000-pic.Png''], File [2, 7, 8, 9])])
   \<and> compressImage example_platform example_config [7, 8, 9] ''1700000000000-a.webp''
       (disk example_world) =
     Inr (''https://cdn.soulcraftbd.com/uploads/1700000000000-a.webp'',
          disk example_world @
            [([''app'', ''uploads'', ''1700000000000-a.webp''], File [3, 7, 8, 9])])
   \<and> compressImage example_platform example_config [7, 8, 9] ''1700000000000-notes.txt''
       (disk example_world) =
     Inr (''https://cdn.soulcraftbd.com/uploads/1700000000000-notes.txt'',
          disk example_world @
            [([''app'', ''uploads'', ''1700000000000-notes.txt''], File [7, 8, 9])])"
proof -
  have wr: "\<And>name c. CHR 0x00 \<notin> set name \<Longrightarrow>
      fs_write (disk example_world) ([''app'', ''uploads'', name], False) c =
        Inr (disk example_world @ [([''app'', ''uploads'', name], File c)])"
    by (auto simp add: fs_write_def has_nul_def node_at_def example_world_def)
  show ?thesis
    using C1_transcode_dispatch [of example_platform example_config "[7, 8, 9]"
            "''1700000000000-cat.JPG''" "disk example_world"]
          C1_transcode_dispatch [of example_platform example_config "[7, 8, 9]"
            "''1700000000000-pic.Png''" "disk example_world"]
          C1_transcode_dispatch [of example_platform example_config "[7, 8, 9]"
            "''1700000000000-a.webp''" "disk example_world"]
          C1_transcode_dispatch [of example_platform example_config "[7, 8, 9]"
            "''1700000000000-notes.txt''" "disk example_world"]
    by (simp add: example_transcode example_output_path wr example_config_simps)
qed

subsection \<open>C2: the stored filename and the returned URL\<close>




subsection \<open>C3: a part over the size limit\<close>

text \<open>
  C3 as the specification states it: every upload with a part over the size limit is
  answered 400 with the message of the size error. The code does not do that for a part
  that is over the limit and of a content type that is not allowed: multer asks the file
  filter before it reads a byte of the part, so the answer is 400 with the message of the
  file filter. The instance: one part of type \<open>image/gif\<close> and 2 MiB + 1 bytes, on both
  routes, with the default configuration.
\<close>

theorem C3_size_is_not_always_the_message:
  "post_upload_single example_platform example_config (Multipart [big_gif]) example_world =
     (status_json 400 (Failure ''Invalid file type (JPEG, PNG, WebP only).''), example_world)
   \<and> post_upload_multiple example_platform example_config
         (Multipart [big_gif\<lparr>fieldname := ''files''\<rparr>]) example_world =
     (status_json 400 (Failure ''Invalid file type (JPEG, PNG, WebP only).''), example_world)
   \<and> MAX_FILE_SIZE example_config < length (buffer big_gif)"
  by (simp add: post_upload_single_def post_upload_multiple_def upload_single_def
                upload_array_def fileFilter_def Error_def example_config_simps big_gif_def)

text \<open>
  C3, amended. For every multipart upload with a part whose size exceeds the configured
  maximum, both routes answer 400 and leave the world as it is. The message is the one of
  the size error (\<open>File too large (max 2MB)\<close> on the single route, \<open>Each file must
  be under 2MB\<close> on the multiple route) when that part is the first to fail validation:
  every part before it is accepted, it is in the expected field and within the file
  count, and its content type is allowed. A 400 answer carries that message only when
  some part of the upload reached the size limit, so the size error can be told from
  every other validation failure.
\<close>

theorem C3_size_rejection:
  "(p \<in> set parts \<and> MAX_FILE_SIZE cfg < length (buffer p) \<longrightarrow>
      status (fst (post_upload_single P cfg (Multipart parts) w)) = 400 \<and>
      snd (post_upload_single P cfg (Multipart parts) w) = w \<and>
      status (fst (post_upload_multiple P cfg (Multipart parts) w)) = 400 \<and>
      snd (post_upload_multiple P cfg (Multipart parts) w) = w)
   \<and> (fieldname p = ''file'' \<and> mimetype p \<in> set (ALLOWED_TYPES cfg) \<and>
       MAX_FILE_SIZE cfg < length (buffer p) \<longrightarrow>
      post_upload_single P cfg (Multipart (p # post)) w =
        (status_json 400 (Failure ''File too large (max 2MB)''), w))
   \<and> (multer_files P cfg ''files'' (MAX_FILES cfg) pre = Inr pre \<and>
       length pre < MAX_FILES cfg \<and>
       fieldname p = ''files'' \<and> mimetype p \<in> set (ALLOWED_TYPES cfg) \<and>
       MAX_FILE_SIZE cfg < length (buffer p) \<longrightarrow>
      post_upload_multiple P cfg (Multipart (pre @ p # post)) w =
        (status_json 400 (Failure ''Each file must be under 2MB''), w))
   \<and> (post_upload_single P cfg (Multipart parts) w =
         (status_json 400 (Failure ''File too large (max 2MB)''), w') \<longrightarrow>
      (\<exists>q\<in>set parts. over_limit P cfg q))
   \<and> (post_upload_multiple P cfg (Multipart parts) w =
         (status_json 400 (Failure ''Each file must be under 2MB''), w') \<longrightarrow>
      (\<exists>q\<in>set parts. over_limit P cfg q))"
proof (intro conjI impI)
  assume a: "p \<in> set parts \<and> MAX_FILE_SIZE cfg < length (buffer p)"
  then have "over_limit P cfg p" by (simp add: over_limit_exceeds)
  with a rejected_400 [of p parts cfg P w]
  show "status (fst (post_upload_single P cfg (Multipart parts) w)) = 400"
    and "snd (post_upload_single P cfg (Multipart parts) w) = w"
    and "status (fst (post_upload_multiple P cfg (Multipart parts) w)) = 400"
    and "snd (post_upload_multiple P cfg (Multipart parts) w) = w"
    by simp_all
next
  assume a: "fieldname p = ''file'' \<and> mimetype p \<in> set (ALLOWED_TYPES cfg) \<and>
             MAX_FILE_SIZE cfg < length (buffer p)"
  then have "multer_files P cfg ''file'' 1 ([] @ p # post) = Inl (MulterError ''LIMIT_FILE_SIZE'')"
    by (intro multer_files_first_oversize) (simp_all add: over_limit_exceeds)
  then have "upload_single P cfg ''file'' (Multipart (p # post)) =
               Inl (MulterError ''LIMIT_FILE_SIZE'')"
    by (simp add: upload_single_Multipart)
  from intake_error_single [OF this]
  show "post_upload_single P cfg (Multipart (p # post)) w =
          (status_json 400 (Failure ''File too large (max 2MB)''), w)"
    by (simp add: MulterError_def)
next
  assume a: "multer_files P cfg ''files'' (MAX_FILES cfg) pre = Inr pre \<and>
       length pre < MAX_FILES cfg \<and>
       fieldname p = ''files'' \<and> mimetype p \<in> set (ALLOWED_TYPES cfg) \<and>
       MAX_FILE_SIZE cfg < length (buffer p)"
  then have "multer_files P cfg ''files'' (MAX_FILES cfg) (pre @ p # post) =
               Inl (MulterError ''LIMIT_FILE_SIZE'')"
    by (intro multer_files_first_oversize) (simp_all add: over_limit_exceeds)
  then have "upload_array P cfg ''files'' (MAX_FILES cfg) (Multipart (pre @ p # post)) =
               Inl (MulterError ''LIMIT_FILE_SIZE'')"
    by (simp add: upload_array_Multipart)
  from intake_error_multiple [OF this]
  show "post_upload_multiple P cfg (Multipart (pre @ p # post)) w =
          (status_json 400 (Failure ''Each file must be under 2MB''), w)"
    by (simp add: MulterError_def)
next
  assume a: "post_upload_single P cfg (Multipart parts) w =
               (status_json 400 (Failure ''File too large (max 2MB)''), w')"
  show "\<exists>q\<in>set parts. over_limit P cfg q"
  proof (cases "multer_files P cfg ''file'' 1 parts")
    case (Inl err)
    then have "upload_single P cfg ''file'' (Multipart parts) = Inl err"
      by (simp add: upload_single_Multipart)
    from intake_error_single [OF this, of w] a intake_messages [OF Inl]
    show ?thesis by (auto simp: status_json_def split: if_splits)
  next
    case (Inr files)
    with a show ?thesis
      by (auto simp: post_upload_single_def upload_single_def status_json_def json_def
                     Date_now_def
               split: list.splits sum.splits prod.splits)
  qed
next
  assume a: "post_upload_multiple P cfg (Multipart parts) w =
               (status_json 400 (Failure ''Each file must be under 2MB''), w')"
  show "\<exists>q\<in>set parts. over_limit P cfg q"
  proof (cases "multer_files P cfg ''files'' (MAX_FILES cfg) parts")
    case (Inl err)
    then have "upload_array P cfg ''files'' (MAX_FILES cfg) (Multipart parts) = Inl err"
      by (simp add: upload_array_Multipart)
    from intake_error_multiple [OF this, of w] a intake_messages [OF Inl]
    show ?thesis by (auto simp: status_json_def split: if_splits)
  next
    case (Inr files)
    with a show ?thesis
      by (auto simp: post_upload_multiple_def upload_array_def status_json_def json_def
               split: sum.splits prod.splits)
  qed
qed

theorem C3_size_rejection_witness:
  "post_upload_single example_platform example_config (Multipart [big_png]) example_world =
     (status_json 400 (Failure ''File too large (max 2MB)''), example_world)
   \<and> post_upload_multiple example_platform example_config
         (Multipart [cat_jpg\<lparr>fieldname := ''files''\<rparr>, big_png\<lparr>fieldname := ''files''\<rparr>])
         example_world =
     (status_json 400 (Failure ''Each file must be under 2MB''), example_world)
   \<and> status (fst (post_upload_single example_platform example_config (Multipart [big_gif])
                    example_world)) = 400"
proof -
  have pre: "multer_files example_platform example_config ''files'' (MAX_FILES example_config)
               [cat_jpg\<lparr>fieldname := ''files''\<rparr>] = Inr [cat_jpg\<lparr>fieldname := ''files''\<rparr>]"
    by (simp add: fileFilter_def over_limit_def example_config_simps example_platform_def
                  cat_jpg_def)
  have big: "fieldname big_png = ''file''" "mimetype big_png \<in> set (ALLOWED_TYPES example_config)"
    "MAX_FILE_SIZE example_config < length (buffer big_png)"
    "MAX_FILE_SIZE example_config < length (buffer big_gif)"
    by (simp_all add: big_png_def big_gif_def example_config_simps)
  have big': "fieldname (big_png\<lparr>fieldname := ''files''\<rparr>) = ''files''"
    "mimetype (big_png\<lparr>fieldname := ''files''\<rparr>) \<in> set (ALLOWED_TYPES example_config)"
    "MAX_FILE_SIZE example_config < length (buffer (big_png\<lparr>fieldname := ''files''\<rparr>))"
    by (simp_all add: big_png_def example_config_simps)
  have n: "length [cat_jpg\<lparr>fieldname := ''files''\<rparr>] < MAX_FILES example_config"
    by (simp add: example_config_simps)
  from C3_size_rejection
         [where P = example_platform and cfg = example_config and p = big_png and
                parts = "[big_gif]" and post = "[]" and pre = "[]" and w = example_world]
       C3_size_rejection
         [where P = example_platform and cfg = example_config and p = big_gif and
                parts = "[big_gif]" and post = "[]" and pre = "[]" and w = example_world]
       C3_size_rejection
         [where P = example_platform and cfg = example_config and
                p = "big_png\<lparr>fieldname := ''files''\<rparr>" and
                parts = "[]" and post = "[]" and pre = "[cat_jpg\<lparr>fieldname := ''files''\<rparr>]" and
                w = example_world]
       pre big big' n
  show ?thesis by simp
qed

subsection \<open>C4: a part of a content type that is not allowed\<close>

text \<open>
  C4. For every multipart upload with a part whose declared content type is not in the
  allow-list, both routes answer 400 with success false, and the world is the one the
  request found: no byte of any part is written. The intake stage does no disk I/O:
  \<open>upload_single\<close> and \<open>upload_array\<close> neither read nor return the world, and
  whenever they report an error the handler answers 400 and leaves the world as it is.
\<close>

theorem C4_type_rejection:
  "(p \<in> set parts \<and> mimetype p \<notin> set (ALLOWED_TYPES cfg) \<longrightarrow>
      status (fst (post_upload_single P cfg (Multipart parts) w)) = 400 \<and>
      success (reply (fst (post_upload_single P cfg (Multipart parts) w))) = Some False \<and>
      snd (post_upload_single P cfg (Multipart parts) w) = w \<and>
      status (fst (post_upload_multiple P cfg (Multipart parts) w)) = 400 \<and>
      success (reply (fst (post_upload_multiple P cfg (Multipart parts) w))) = Some False \<and>
      snd (post_upload_multiple P cfg (Multipart parts) w) = w)
   \<and> (upload_single P cfg ''file'' b = Inl err \<longrightarrow>
        status (fst (post_upload_single P cfg b w)) = 400 \<and>
        snd (post_upload_single P cfg b w) = w)
   \<and> (upload_array P cfg ''files'' (MAX_FILES cfg) b = Inl err \<longrightarrow>
        status (fst (post_upload_multiple P cfg b w)) = 400 \<and>
        snd (post_upload_multiple P cfg b w) = w)"
  using rejected_400 [of p parts cfg P w] rejected_failure [of p parts cfg P w]
        intake_error_single [of P cfg b err w] intake_error_multiple [of P cfg b err w]
  by (simp add: status_json_def)

theorem C4_type_rejection_witness:
  "status (fst (post_upload_single example_platform example_config
                  (Multipart [big_gif]) example_world)) = 400
   \<and> snd (post_upload_single example_platform example_config
            (Multipart [big_gif]) example_world) = example_world
   \<and> status (fst (post_upload_multiple example_platform example_config
                    (Multipart [notes_txt, big_gif]) example_world)) = 400
   \<and> snd (post_upload_multiple example_platform example_config
            (Multipart [notes_txt, big_gif]) example_world) = example_world"
proof -
  have "mimetype big_gif \<notin> set (ALLOWED_TYPES example_config)"
    by (simp add: big_gif_def example_config_simps)
  with C4_type_rejection
         [where P = example_platform and cfg = example_config and p = big_gif and
                parts = "[big_gif]" and w = example_world]
       C4_type_rejection
         [where P = example_platform and cfg = example_config and p = big_gif and
                parts = "[notes_txt, big_gif]" and w = example_world]
  show ?thesis by simp
qed

subsection \<open>C5: the first failing file of a batch\<close>

text \<open>
  C5. For every batch multer accepted, if the files before \<open>f\<close> are stored and
  transcoding or writing \<open>f\<close> fails with \<open>err\<close>, the whole response is 500 with
  success false and the message of \<open>err\<close>: no URL of the files already stored is
  returned. The disk the request leaves is the disk as it was after the files before
  \<open>f\<close> were stored, and each of them is still a file at its output path: nothing is
  rolled back.
\<close>

theorem C5_first_failure_no_rollback:
  "upload_array P cfg ''files'' (MAX_FILES cfg) b = Inr (Some (pre @ f # post)) \<and>
   upload_loop P cfg pre [] w = (Inr urls, v) \<and>
   compressImage P cfg (buffer f) (stored_filename (clock v (reads v)) f) (disk v) = Inl err
   \<longrightarrow>
   (\<exists>w'. post_upload_multiple P cfg b w = (status_json 500 (Failure (message err)), w') \<and>
         disk w' = disk v \<and>
         (\<forall>(k, g) \<in> set (enumerate (reads w) pre).
            \<exists>c. map_of (disk w') (fst (output_path cfg (stored_filename (clock w k) g))) =
                   Some (File c)))"
proof (intro impI, elim conjE)
  assume intake: "upload_array P cfg ''files'' (MAX_FILES cfg) b = Inr (Some (pre @ f # post))"
    and pre: "upload_loop P cfg pre [] w = (Inr urls, v)"
    and bad: "compressImage P cfg (buffer f) (stored_filename (clock v (reads v)) f)
                (disk v) = Inl err"
  let ?w' = "snd (Date_now v)"
  from upload_loop_fails [OF pre bad] intake
  have "post_upload_multiple P cfg b w = (status_json 500 (Failure (message err)), ?w')"
    by (simp add: post_upload_multiple_def del: upload_loop.simps)
  moreover have "disk ?w' = disk v" by (simp add: Date_now_simps)
  moreover from upload_loop_stored [OF pre]
  have "\<forall>(k, g) \<in> set (enumerate (reads w) pre).
          \<exists>c. map_of (disk ?w') (fst (output_path cfg (stored_filename (clock w k) g))) =
                 Some (File c)"
    by (simp add: Date_now_simps stored_filename_def)
  ultimately show "\<exists>w'. post_upload_multiple P cfg b w =
                          (status_json 500 (Failure (message err)), w') \<and>
         disk w' = disk v \<and>
         (\<forall>(k, g) \<in> set (enumerate (reads w) pre).
            \<exists>c. map_of (disk w') (fst (output_path cfg (stored_filename (clock w k) g))) =
                   Some (File c))"
    by blast
qed

theorem C5_first_failure_no_rollback_witness:
  "fst (post_upload_multiple example_platform example_config
          (Multipart [cat_jpg\<lparr>fieldname := ''files''\<rparr>, notes_txt, empty_png]) example_world) =
     status_json 500 (Failure ''Input Buffer is empty'')
   \<and> disk (snd (post_upload_multiple example_platform example_config
          (Multipart [cat_jpg\<lparr>fieldname := ''files''\<rparr>, notes_txt, empty_png]) example_world)) =
     disk example_world @
       [([''app'', ''uploads'', ''1700000000000-cat.JPG''], File [1, 7, 8, 9]),
        ([''app'', ''uploads'', ''1700000000001-notes.txt''], File [4, 5])]"
proof -
  let ?w1 = "example_world
        \<lparr>reads := 2,
         disk := disk example_world @
                   [([''app'', ''uploads'', ''1700000000000-cat.JPG''], File [1, 7, 8, 9]),
                    ([''app'', ''uploads'', ''1700000000001-notes.txt''], File [4, 5])]\<rparr>"
  have bad: "compressImage example_platform example_config (buffer empty_png)
               (stored_filename (clock ?w1 (reads ?w1)) empty_png) (disk ?w1) =
             Inl (Error ''Input Buffer is empty'')"
    by (simp add: compressImage_transcode stored_filename_def empty_png_def example_world_def
                  dec_string_examples example_transcode(6))
  have app: "[cat_jpg\<lparr>fieldname := ''files''\<rparr>, notes_txt, empty_png] =
             [cat_jpg\<lparr>fieldname := ''files''\<rparr>, notes_txt] @ empty_png # []"
    by simp
  from C5_first_failure_no_rollback
         [where P = example_platform and cfg = example_config and
                b = "Multipart [cat_jpg\<lparr>fieldname := ''files''\<rparr>, notes_txt, empty_png]" and
                pre = "[cat_jpg\<lparr>fieldname := ''files''\<rparr>, notes_txt]" and f = empty_png and
                post = "[]" and w = example_world and v = ?w1 and
                err = "Error ''Input Buffer is empty''"]
       example_intake(2) example_pair bad
  obtain w' where
    "post_upload_multiple example_platform example_config
       (Multipart [cat_jpg\<lparr>fieldname := ''files''\<rparr>, notes_txt, empty_png]) example_world =
     (status_json 500 (Failure (message (Error ''Input Buffer is empty''))), w')"
    and "disk w' = disk ?w1"
    by (auto simp del: upload_loop.simps)
  then show ?thesis by (simp add: Error_def)
qed

subsection \<open>C6: the listing\<close>

text \<open>
  C6. The server runs, so the path of the storage directory is one \<open>fs\<close> accepts (line
  31 would have thrown otherwise). Then, for every state of the disk: when the storage
  directory can be read, the listing answers 200 with success true and the URLs of exactly
  the names that are present in the directory, each the public base URL, a slash and the
  name; when it cannot be read, the listing answers 500 with success false and the message
  of the error \<open>fs.readdir\<close> reported. Either way the world is left as it is, and the
  answer depends on the disk of the moment only.
\<close>

theorem C6_listing:
  "\<not> has_nul (storage_dir cfg) \<longrightarrow>
     (node_at (disk w) (fst (storage_dir cfg)) = Some Dir \<longrightarrow>
        (\<exists>urls. get_images cfg w = (json (Images urls), w) \<and>
           status (json (Images urls)) = 200 \<and> success (Images urls) = Some True \<and>
           set urls = (\<lambda>n. UPLOADS_URL cfg @ ''/'' @ n) `
                        {n. map_of (disk w) (fst (storage_dir cfg) @ [n]) \<noteq> None}))
   \<and> (node_at (disk w) (fst (storage_dir cfg)) \<noteq> Some Dir \<longrightarrow>
        (\<exists>err. fs_readdir (disk w) (storage_dir cfg) = Failed err \<and>
           get_images cfg w = (status_json 500 (Failure (message err)), w) \<and>
           success (Failure (message err)) = Some False))"
  using get_images_listing [of cfg w] get_images_unreadable [of cfg w]
  by (auto simp: json_def)

theorem C6_listing_witness:
  "get_images example_config
     (example_world\<lparr>disk := disk example_world @
        [([''app'', ''uploads'', ''1700000000000-cat.JPG''], File [1, 7, 8, 9])]\<rparr>) =
     (json (Images [''https://cdn.soulcraftbd.com/uploads/1700000000000-cat.JPG'']),
      example_world\<lparr>disk := disk example_world @
        [([''app'', ''uploads'', ''1700000000000-cat.JPG''], File [1, 7, 8, 9])]\<rparr>)
   \<and> get_images example_config (example_world\<lparr>disk := []\<rparr>) =
     (status_json 500
        (Failure (''ENOENT: no such file or directory, scandir '' @
                  [CHR 0x27] @ ''/app/uploads'' @ [CHR 0x27])),
      example_world\<lparr>disk := []\<rparr>)"
proof -
  let ?w = "example_world\<lparr>disk := disk example_world @
        [([''app'', ''uploads'', ''1700000000000-cat.JPG''], File [1, 7, 8, 9])]\<rparr>"
  have nn: "\<not> has_nul (storage_dir example_config)"
    by (simp add: example_storage_dir has_nul_def)
  have d: "node_at (disk ?w) (fst (storage_dir example_config)) = Some Dir"
    by (simp add: example_storage_dir node_at_def example_world_def)
  have m: "node_at (disk (example_world\<lparr>disk := []\<rparr>)) (fst (storage_dir example_config)) \<noteq>
             Some Dir"
    by (simp add: example_storage_dir node_at_def)
  have one: "get_images example_config ?w =
     (json (Images [''https://cdn.soulcraftbd.com/uploads/1700000000000-cat.JPG'']), ?w)"
    by (simp add: get_images_def example_path_join fs_readdir_def
                  has_nul_def node_at_def example_world_def example_config_simps)
  have two: "fs_readdir [] (storage_dir example_config) =
               Failed (ENOENT ''scandir'' ([''app'', ''uploads''], False))"
    by (simp add: example_storage_dir fs_readdir_def has_nul_def node_at_def)
  have msg: "message (ENOENT ''scandir'' ([''app'', ''uploads''], False)) =
               ''ENOENT: no such file or directory, scandir '' @
                  [CHR 0x27] @ ''/app/uploads'' @ [CHR 0x27]"
    by (simp add: ENOENT_def errno_def render_def)
  from C6_listing [of example_config ?w] C6_listing [of example_config "example_world\<lparr>disk := []\<rparr>"]
       nn d m
  show ?thesis by (auto simp: one two msg)
qed

subsection \<open>C7: deletion\<close>

text \<open>
  C7 says that a deletion request naming a file that does not exist is answered 404 with
  success false and that the handler throws nothing unhandled. The code breaks this for
  \<open>DELETE /images/%00\<close>: Express decodes the parameter to the one-character name NUL,
  no such file exists, \<open>fs.unlink\<close> throws \<open>ERR_INVALID_ARG_VALUE\<close> before it calls back,
  the handler has no \<open>try\<close> (both upload handlers have one), and Express's final
  handler answers 500 with its error page. For every name whose path has no NUL the
  claim holds: see \<open>delete_image_missing\<close> and \<open>delete_image_removes\<close>.
\<close>

theorem C7_delete_nul_name:
  "delete_image example_config [CHR 0x00] example_world =
     (final_handler ERR_INVALID_ARG_VALUE, example_world)
   \<and> status (final_handler ERR_INVALID_ARG_VALUE) = 500
   \<and> success (reply (final_handler ERR_INVALID_ARG_VALUE)) = None
   \<and> node_at (disk example_world) (fst (output_path example_config [CHR 0x00])) = None"
proof -
  have p: "output_path example_config [CHR 0x00] = ([''app'', ''uploads'', [CHR 0x00]], False)"
    by (rule example_output_path) simp_all
  show ?thesis
    by (simp add: delete_image_cases p has_nul_def final_handler_def node_at_def
                  example_world_def)
qed

subsection \<open>C8: the access-control filter\<close>

text \<open>
  C8 as the specification states it: a request is permitted if and only if its origin is
  absent or a member of the allow-list. The code also permits a request whose Origin
  header is present and empty, because \<open>!origin\<close> holds for the empty string: with the
  default allow-list such a request reaches the route.
\<close>

theorem C8_empty_origin_is_permitted:
  "app example_platform example_config \<lparr>origin_header = Some '''', route = GetImages\<rparr>
       example_world =
     get_images example_config example_world
   \<and> cors_origin example_config (Some '''') = Inr True
   \<and> Some '''' \<noteq> (None :: string option)
   \<and> '''' \<notin> set (ALLOWED_ORIGINS example_config)"
  by (simp add: app_def cors_origin_def falsy_def example_config_simps)

text \<open>
  C8, amended. For every request, the access-control filter permits it if and only if
  its declared origin is absent, is the empty string, or is a member of the configured
  allow-list. A permitted request is handed to its route. Every other request is
  rejected with the error \<open>Not allowed by CORS\<close>, which goes to Express's final handler:
  no route runs and the world is left as it is. The filter itself is a function of the
  configuration and the origin only.
\<close>

theorem C8_access_control:
  "let permitted = (origin_header req = None \<or> origin_header req = Some '''' \<or>
                    (\<exists>s. origin_header req = Some s \<and> s \<in> set (ALLOWED_ORIGINS cfg)))
   in (cors_origin cfg (origin_header req) = Inr True) = permitted
    \<and> (cors_origin cfg (origin_header req) = Inl (Error ''Not allowed by CORS'')) =
        (\<not> permitted)
    \<and> app P cfg req w =
        (if permitted then dispatch P cfg (route req) w
         else (final_handler (Error ''Not allowed by CORS''), w))"
  by (cases "origin_header req")
     (auto simp: app_def cors_origin_def falsy_def array_includes_def Let_def)

theorem C8_access_control_witness:
  "app example_platform example_config
       \<lparr>origin_header = Some ''https://soulcraftbd.com'', route = GetImages\<rparr> example_world =
     get_images example_config example_world
   \<and> app example_platform example_config
       \<lparr>origin_header = None, route = GetImages\<rparr> example_world =
     get_images example_config example_world
   \<and> app example_platform example_config
       \<lparr>origin_header = Some ''http://evil.example'', route = DeleteImage ''x.png''\<rparr>
       example_world =
     (final_handler (Error ''Not allowed by CORS''), example_world)"
  using C8_access_control
          [of "\<lparr>origin_header = Some ''https://soulcraftbd.com'', route = GetImages\<rparr>"
              example_config example_platform example_world]
        C8_access_control
          [of "\<lparr>origin_header = None, route = GetImages\<rparr>"
              example_config example_platform example_world]
        C8_access_control
          [of "\<lparr>origin_header = Some ''http://evil.example'', route = DeleteImage ''x.png''\<rparr>"
              example_config example_platform example_world]
  by (simp add: example_config_simps Let_def)

subsection \<open>C9: a single upload without a file\<close>

text \<open>
  C9. multer passes a single-upload request with \<open>req.file\<close> undefined exactly when the
  request has no file part at all (it is not multipart, or it is multipart without a file
  part). For every such request the handler answers 500 with success false and the
  message of the \<open>TypeError\<close> that reading \<open>req.file.originalname\<close> raises, not 400,
  and the disk is left as it is.
\<close>

theorem C9_single_without_file:
  "(upload_single P cfg ''file'' b = Inr None) = (b = NotMultipart \<or> b = Multipart [])
   \<and> (upload_single P cfg ''file'' b = Inr None \<longrightarrow>
        fst (post_upload_single P cfg b w) =
          status_json 500 (Failure (message TypeError_originalname)) \<and>
        status (fst (post_upload_single P cfg b w)) = 500 \<and>
        success (reply (fst (post_upload_single P cfg b w))) = Some False \<and>
        disk (snd (post_upload_single P cfg b w)) = disk w)"
proof (intro conjI impI)
  show "(upload_single P cfg ''file'' b = Inr None) = (b = NotMultipart \<or> b = Multipart [])"
    by (rule upload_single_no_file)
next
  assume none: "upload_single P cfg ''file'' b = Inr None"
  then have r: "post_upload_single P cfg b w =
                  (status_json 500 (Failure (message TypeError_originalname)), snd (Date_now w))"
    by (simp add: post_upload_single_def Date_now_def)
  from r show "fst (post_upload_single P cfg b w) =
                 status_json 500 (Failure (message TypeError_originalname))"
    by simp
  from r show "status (fst (post_upload_single P cfg b w)) = 500"
    by (simp add: status_json_def)
  from r show "success (reply (fst (post_upload_single P cfg b w))) = Some False"
    by (simp add: status_json_def)
  from r show "disk (snd (post_upload_single P cfg b w)) = disk w"
    by (simp add: Date_now_simps)
qed

theorem C9_single_without_file_witness:
  "post_upload_single example_platform example_config (Multipart []) example_world =
     (status_json 500
        (Failure (''Cannot read properties of undefined (reading '' @ [CHR 0x27] @
                  ''originalname'' @ [CHR 0x27] @ '')'')),
      example_world\<lparr>reads := 1\<rparr>)
   \<and> status (fst (post_upload_single example_platform example_config NotMultipart
                    example_world)) = 500
   \<and> disk (snd (post_upload_single example_platform example_config NotMultipart
                  example_world)) = disk example_world"
proof -
  have "post_upload_single example_platform example_config (Multipart []) example_world =
     (status_json 500
        (Failure (''Cannot read properties of undefined (reading '' @ [CHR 0x27] @
                  ''originalname'' @ [CHR 0x27] @ '')'')),
      example_world\<lparr>reads := 1\<rparr>)"
    by (simp add: post_upload_single_def upload_single_def Date_now_def
                  TypeError_originalname_def Error_def example_world_def)
  with C9_single_without_file [of example_platform example_config NotMultipart example_world]
  show ?thesis by (simp add: status_json_def)
qed

subsection \<open>C10: a multiple upload without files\<close>

text \<open>
  C10 as the specification states it: every multi-upload request that passes the filters
  and has zero file parts is answered with success true and an empty list. A request that
  is not multipart has zero file parts and passes multer untouched, with \<open>req.files\<close>
  undefined; the \<open>for\<close> loop over it raises a \<open>TypeError\<close> and the answer is 500.
\<close>

theorem C10_not_multipart_is_500:
  "post_upload_multiple example_platform example_config NotMultipart example_world =
     (status_json 500 (Failure ''req.files is not iterable''), example_world)"
  by (simp add: post_upload_multiple_def upload_array_def TypeError_not_iterable_def Error_def)

text \<open>
  C10, amended. For every multipart request to the multiple-upload route that has zero
  file parts, the answer is 200 with success true and an empty list of URLs, and the
  world, the storage directory included, is left as it is.
\<close>

theorem C10_empty_batch:
  "post_upload_multiple P cfg (Multipart []) w = (json (Urls []), w)
   \<and> status (json (Urls [])) = 200 \<and> success (Urls []) = Some True"
  by (simp add: post_upload_multiple_def upload_array_def json_def)

theorem C10_empty_batch_witness:
  "post_upload_multiple example_platform example_config (Multipart []) example_world =
     (json (Urls []), example_world)"
  using C10_empty_batch [of example_platform example_config example_world] by simp

end
